theory Spec2Isabelle
  imports Main "HOL-Library.Char_ord" "HOL-Library.List_Lexorder" "HOL-Library.AList"
begin

section \<open>JavaScript values as the panel code sees them\<close>

text \<open>
  The panel header and panel actions receive query results typed \<open>any\<close> and probe them
  structurally. A value is one of the JSON-like shapes below, a tree as \<open>JSON.parse\<close>
  builds it: two objects at different places are different objects. Numbers are the
  integer-valued ones (epoch seconds and milliseconds, counts); fractional numbers, NaN
  and the infinities are outside the model. An object is the list of its own enumerable
  properties in the order \<open>Object.keys\<close> reports them, each key once; inherited
  (prototype) properties are not modelled, so a property is read faithfully when its key
  is none of \<open>object_prototype_keys\<close> below.
\<close>

datatype jsval =
    JUndefined
  | JNull
  | JBool bool
  | JNum int
  | JStr string
  | JArr "jsval list"
  | JObj "(string \<times> jsval) list"

datatype js_error = TypeError | RangeError

text \<open>A computation that may throw: \<open>Inl\<close> is the exception, \<open>Inr\<close> the value.\<close>

definition bnd :: "js_error + 'a \<Rightarrow> ('a \<Rightarrow> js_error + 'b) \<Rightarrow> js_error + 'b" where
  "bnd m f = (case m of Inl e \<Rightarrow> Inl e | Inr x \<Rightarrow> f x)"

text \<open>Runs a loop body over a list, threading the accumulator, stopping at the first throw.\<close>

fun for_each :: "('s \<Rightarrow> 'a \<Rightarrow> js_error + 's) \<Rightarrow> 's \<Rightarrow> 'a list \<Rightarrow> js_error + 's" where
  "for_each f s [] = Inr s"
| "for_each f s (x # xs) = bnd (f s x) (\<lambda>s'. for_each f s' xs)"

text \<open>\<open>xs.map(f)\<close> with a callback that may throw.\<close>

fun map_res :: "('a \<Rightarrow> js_error + 'b) \<Rightarrow> 'a list \<Rightarrow> js_error + 'b list" where
  "map_res f [] = Inr []"
| "map_res f (x # xs) = bnd (f x) (\<lambda>y. bnd (map_res f xs) (\<lambda>ys. Inr (y # ys)))"

text \<open>Truthiness: \<open>undefined\<close>, \<open>null\<close>, \<open>false\<close>, \<open>0\<close> and \<open>""\<close> are falsy.\<close>

fun truthy :: "jsval \<Rightarrow> bool" where
  "truthy JUndefined = False"
| "truthy JNull = False"
| "truthy (JBool b) = b"
| "truthy (JNum n) = (n \<noteq> 0)"
| "truthy (JStr s) = (s \<noteq> [])"
| "truthy (JArr xs) = True"
| "truthy (JObj fs) = True"

fun nullish :: "jsval \<Rightarrow> bool" where
  "nullish JUndefined = True"
| "nullish JNull = True"
| "nullish v = False"

fun is_array :: "jsval \<Rightarrow> bool" where
  "is_array (JArr xs) = True"
| "is_array v = False"

text \<open>\<open>a || b\<close> on values.\<close>

definition js_or :: "jsval \<Rightarrow> jsval \<Rightarrow> jsval" where
  "js_or a b = (if truthy a then a else b)"

text \<open>
  The decimal digits of a number, as \<open>String(n)\<close>, \<open>join\<close> and template literals
  print a safe integer (\<open>Number.isSafeInteger\<close>: magnitude at most 2^53 - 1). Beyond that
  range JavaScript prints the shortest digits that read back as the same double, and from
  1e21 on an exponent, which \<open>number_to_string\<close> does not follow: the theorems that
  print numbers of the payload ask that they be safe (\<open>safe_integers\<close> below).
\<close>

definition digit_char :: "nat \<Rightarrow> char" where
  "digit_char k = ''0123456789'' ! k"

fun decimal :: "nat \<Rightarrow> string" where
  "decimal n = (if 10 \<le> n then decimal (n div 10) @ [digit_char (n mod 10)] else [digit_char n])"

declare decimal.simps [simp del]

definition number_to_string :: "int \<Rightarrow> string" where
  "number_to_string i = (if 0 \<le> i then decimal (nat i) else CHR ''-'' # decimal (nat (- i)))"

text \<open>\<open>xs.join(sep)\<close> on strings already converted.\<close>

fun join :: "string \<Rightarrow> string list \<Rightarrow> string" where
  "join sep [] = []"
| "join sep [x] = x"
| "join sep (x # y # ys) = x @ sep @ join sep (y # ys)"

text \<open>
  \<open>String(v)\<close> and template interpolation. An array prints its elements joined by commas,
  \<open>null\<close> and \<open>undefined\<close> elements as nothing; a plain object prints as
  \<open>[object Object]\<close>.
\<close>

fun to_string :: "jsval \<Rightarrow> string" where
  "to_string JUndefined = ''undefined''"
| "to_string JNull = ''null''"
| "to_string (JBool b) = (if b then ''true'' else ''false'')"
| "to_string (JNum n) = number_to_string n"
| "to_string (JStr s) = s"
| "to_string (JArr xs) = join '','' (map (\<lambda>x. if nullish x then [] else to_string x) xs)"
| "to_string (JObj fs) = ''[object Object]''"

text \<open>\<open>xs.join(sep)\<close> on values: \<open>null\<close> and \<open>undefined\<close> elements print as nothing.\<close>

definition js_join :: "string \<Rightarrow> jsval list \<Rightarrow> string" where
  "js_join sep xs = join sep (map (\<lambda>x. if nullish x then [] else to_string x) xs)"



text \<open>\<open>a ?? b\<close>\<close>

definition js_nc :: "jsval \<Rightarrow> jsval \<Rightarrow> jsval" where
  "js_nc a b = (if nullish a then b else a)"


text \<open>
  \<open>ToNumber\<close>, as the relational operators apply it; \<open>None\<close> is NaN. A string converts
  when, blanks at both ends apart, it is empty or spells a decimal integer with an
  optional sign; the other numeric spellings (fractions, exponents, hexadecimal,
  \<open>Infinity\<close>) are outside the model, like the numbers they denote. An array converts
  through the string it prints as, a plain object is NaN.
\<close>

definition blank :: "char \<Rightarrow> bool" where
  "blank c = (c \<in> set [CHR '' '', CHR 0x09, CHR 0x0A, CHR 0x0B, CHR 0x0C, CHR 0x0D, CHR 0xA0])"

definition trim :: "string \<Rightarrow> string" where
  "trim s = rev (dropWhile blank (rev (dropWhile blank s)))"

definition digit_val :: "char \<Rightarrow> nat" where
  "digit_val c = of_char c - 48"

definition undecimal :: "string \<Rightarrow> nat" where
  "undecimal s = foldl (\<lambda>a c. 10 * a + digit_val c) 0 s"

definition digits_to_number :: "string \<Rightarrow> int option" where
  "digits_to_number s =
     (if s \<noteq> [] \<and> (\<forall>c \<in> set s. c \<in> set ''0123456789'') then Some (int (undecimal s)) else None)"

definition string_to_number :: "string \<Rightarrow> int option" where
  "string_to_number s =
     (case trim s of
        [] \<Rightarrow> Some 0
      | c # cs \<Rightarrow>
          if c = CHR ''-'' then map_option uminus (digits_to_number cs)
          else if c = CHR ''+'' then digits_to_number cs
          else digits_to_number (c # cs))"

fun to_number :: "jsval \<Rightarrow> int option" where
  "to_number JUndefined = None"
| "to_number JNull = Some 0"
| "to_number (JBool b) = Some (if b then 1 else 0)"
| "to_number (JNum n) = Some n"
| "to_number (JStr s) = string_to_number s"
| "to_number (JArr xs) = string_to_number (to_string (JArr xs))"
| "to_number (JObj fs) = None"

text \<open>\<open>v > n\<close> and \<open>n < v\<close> for a number \<open>n\<close>: false when \<open>v\<close> converts to NaN.\<close>

definition js_gt :: "jsval \<Rightarrow> int \<Rightarrow> bool" where
  "js_gt v n = (case to_number v of None \<Rightarrow> False | Some m \<Rightarrow> n < m)"

text \<open>
  Reading an own property \<open>v[k]\<close> of a value that is neither \<open>null\<close> nor \<open>undefined\<close>.
  Arrays and strings answer \<open>length\<close> and their index keys.
\<close>

definition index_of_key :: "nat \<Rightarrow> string \<Rightarrow> nat option" where
  "index_of_key n k = (case filter (\<lambda>i. decimal i = k) [0..<n] of [] \<Rightarrow> None | i # _ \<Rightarrow> Some i)"

fun own_prop :: "jsval \<Rightarrow> string \<Rightarrow> jsval" where
  "own_prop (JObj fs) k = (case map_of fs k of None \<Rightarrow> JUndefined | Some v \<Rightarrow> v)"
| "own_prop (JArr xs) k =
     (if k = ''length'' then JNum (int (length xs))
      else case index_of_key (length xs) k of None \<Rightarrow> JUndefined | Some i \<Rightarrow> xs ! i)"
| "own_prop (JStr s) k =
     (if k = ''length'' then JNum (int (length s))
      else case index_of_key (length s) k of None \<Rightarrow> JUndefined | Some i \<Rightarrow> JStr [s ! i])"
| "own_prop v k = JUndefined"

text \<open>Property access as an expression: it throws on \<open>null\<close> and \<open>undefined\<close>.\<close>

definition get_prop :: "jsval \<Rightarrow> string \<Rightarrow> js_error + jsval" where
  "get_prop v k = (if nullish v then Inl TypeError else Inr (own_prop v k))"

section \<open>The classifier of PanelActions\<close>

text \<open>
  The repository holds PanelActions twice: once free of conflicts, and once with merge
  conflicts, whose two sides are called upstream and stashed here. The sections below
  follow the conflict-free file, fed by the PanelHeader that has \<open>extractDataForExport\<close>,
  unless they name another version.
\<close>

datatype shape = Timeseries | Table | Barchart | Unknown

text \<open>
  \<open>detectDataType\<close>: the time-series probe looks at \<open>data.series[0].values\<close>, then the
  table probe, then the bar-chart probe. \<open>firstSeries.values\<close> is read without a guard, so
  a \<open>null\<close> first series throws.
\<close>

definition detectDataType :: "jsval \<Rightarrow> js_error + shape" where
  "detectDataType d =
     (if \<not> truthy d then Inr Unknown
      else
        bnd (case own_prop d ''series'' of
               JArr (firstSeries # rest) \<Rightarrow>
                 bnd (get_prop firstSeries ''values'')
                   (\<lambda>values. Inr (truthy values \<and> is_array values))
             | _ \<Rightarrow> Inr False)
          (\<lambda>ts.
             if ts then Inr Timeseries
             else if truthy (own_prop d ''columns'') \<and> is_array (own_prop d ''columns'')
                     \<and> truthy (own_prop d ''rows'') \<and> is_array (own_prop d ''rows'')
             then Inr Table
             else if truthy (own_prop d ''categories'') \<and> is_array (own_prop d ''categories'')
                     \<and> truthy (own_prop d ''series'') \<and> is_array (own_prop d ''series'')
             then (case own_prop d ''series'' of
                     JArr (firstSeries # rest) \<Rightarrow>
                       if truthy firstSeries \<and> truthy (own_prop firstSeries ''data'')
                          \<and> is_array (own_prop firstSeries ''data'')
                       then Inr Barchart else Inr Unknown
                   | _ \<Rightarrow> Inr Unknown)
             else Inr Unknown))"


section \<open>Dates\<close>

text \<open>
  A \<open>Date\<close> holds a time value in milliseconds since the epoch, or is invalid.
  \<open>new Date(n)\<close> is invalid when \<open>n\<close> lies beyond 8.64e15 milliseconds either side of
  the epoch. \<open>toISOString\<close> throws a RangeError on an invalid date and otherwise prints
  \<open>YYYY-MM-DDTHH:mm:ss.sssZ\<close> in the proleptic Gregorian calendar, with a sign and six
  digits for years outside 0 to 9999.
\<close>

definition new_Date :: "int \<Rightarrow> int option" where
  "new_Date tv = (if \<bar>tv\<bar> > 8640000000000000 then None else Some tv)"

definition pad_left :: "nat \<Rightarrow> nat \<Rightarrow> string" where
  "pad_left w n = replicate (w - length (decimal n)) (CHR ''0'') @ decimal n"

text \<open>Year, month and day of a day number counted from 1970-01-01.\<close>

definition civil_from_days :: "int \<Rightarrow> int \<times> nat \<times> nat" where
  "civil_from_days days =
     (let z = days + 719468;
          era = z div 146097;
          doe = z - era * 146097;
          yoe = (doe - doe div 1460 + doe div 36524 - doe div 146096) div 365;
          doy = doe - (365 * yoe + yoe div 4 - yoe div 100);
          mp = (5 * doy + 2) div 153;
          d = doy - (153 * mp + 2) div 5 + 1;
          m = (if mp < 10 then mp + 3 else mp - 9);
          y = yoe + era * 400
      in (if m \<le> 2 then y + 1 else y, nat m, nat d))"

definition iso_year :: "int \<Rightarrow> string" where
  "iso_year y =
     (if 0 \<le> y \<and> y \<le> 9999 then pad_left 4 (nat y)
      else (if y < 0 then ''-'' else ''+'') @ pad_left 6 (nat \<bar>y\<bar>))"

definition iso_of_time :: "int \<Rightarrow> string" where
  "iso_of_time tv =
     (let days = tv div 86400000;
          ms = tv mod 86400000
      in case civil_from_days days of (y, m, d) \<Rightarrow>
           iso_year y @ ''-'' @ pad_left 2 m @ ''-'' @ pad_left 2 d @ ''T''
           @ pad_left 2 (nat (ms div 3600000)) @ '':''
           @ pad_left 2 (nat (ms div 60000 mod 60)) @ '':''
           @ pad_left 2 (nat (ms div 1000 mod 60)) @ ''.''
           @ pad_left 3 (nat (ms mod 1000)) @ ''Z'')"

definition toISOString :: "int option \<Rightarrow> js_error + string" where
  "toISOString date = (case date of None \<Rightarrow> Inl RangeError | Some tv \<Rightarrow> Inr (iso_of_time tv))"

text \<open>
  \<open>new Date(s)\<close> on a string parses it with \<open>Date.parse\<close>, whose result outside the ISO
  format is left to the engine; the serializer takes it as the parameter \<open>parse\<close>
  (\<open>None\<close> when the string is not a date).
\<close>

definition new_Date_string :: "(string \<Rightarrow> int option) \<Rightarrow> string \<Rightarrow> int option" where
  "new_Date_string parse s = (case parse s of None \<Rightarrow> None | Some tv \<Rightarrow> new_Date tv)"

section \<open>The time-series serializer\<close>

record series_info =
  legendName :: jsval
  columnName :: string

text \<open>
  \<open>getSeriesLegendName\<close>: the first truthy of the five name fields, else
  \<open>Series {index+1}\<close>; the column is always \<open>Series_{index+1}\<close>.
\<close>

definition getSeriesLegendName :: "jsval \<Rightarrow> nat \<Rightarrow> series_info" where
  "getSeriesLegendName series seriesIndex =
     \<lparr>legendName =
        js_or (js_or (js_or (js_or (js_or (own_prop series ''formattedName'')
                                          (own_prop series ''legendName''))
                                   (own_prop series ''displayName''))
                            (own_prop series ''legend''))
                     (own_prop series ''name''))
              (JStr (''Series '' @ decimal (seriesIndex + 1))),
      columnName = ''Series_'' @ decimal (seriesIndex + 1)\<rparr>"

text \<open>
  \<open>result\<close> maps a timestamp string to the row object of that timestamp; a row object
  maps a column name to the value. Both keep insertion order and overwrite in place.
\<close>

type_synonym row_data = "(string \<times> jsval) list"
type_synonym result_map = "(string \<times> row_data) list"

definition store :: "result_map \<Rightarrow> string \<Rightarrow> string \<Rightarrow> jsval \<Rightarrow> result_map" where
  "store result dateTime column v =
     (let rowData = (case map_of result dateTime of None \<Rightarrow> [] | Some r \<Rightarrow> r)
      in AList.update dateTime (AList.update column v rowData) result)"

text \<open>
  The timestamp of an entry: a number above 1e10 is milliseconds, any other number is
  seconds; a string goes to \<open>Date\<close> as it is; anything else skips the entry (\<open>None\<close>).
\<close>

definition dateTime_of :: "(string \<Rightarrow> int option) \<Rightarrow> jsval \<Rightarrow> (js_error + string) option" where
  "dateTime_of parse timestamp =
     (case timestamp of
        JNum t \<Rightarrow>
          (let timestampMs = (if t > 10000000000 then t else t * 1000)
           in Some (toISOString (new_Date timestampMs)))
      | JStr s \<Rightarrow> Some (toISOString (new_Date_string parse s))
      | _ \<Rightarrow> None)"

definition process_entry ::
  "(string \<Rightarrow> int option) \<Rightarrow> string \<Rightarrow> result_map \<Rightarrow> jsval \<Rightarrow> js_error + result_map" where
  "process_entry parse column result entry =
     (case entry of
        JArr es \<Rightarrow>
          if length es < 2 then Inr result
          else (case dateTime_of parse (es ! 0) of
                  None \<Rightarrow> Inr result
                | Some r \<Rightarrow> bnd r (\<lambda>dateTime. Inr (store result dateTime column (es ! 1))))
      | _ \<Rightarrow> Inr result)"

definition process_series ::
  "(string \<Rightarrow> int option) \<Rightarrow> result_map \<times> series_info list \<Rightarrow> nat \<times> jsval
     \<Rightarrow> js_error + result_map \<times> series_info list" where
  "process_series parse st p =
     (case st of (result, seriesInfo) \<Rightarrow>
      case p of (i, series) \<Rightarrow>
        (case (if truthy series then own_prop series ''values'' else JUndefined) of
           JArr entries \<Rightarrow>
             (let seriesMetadata = getSeriesLegendName series i
              in bnd (for_each (process_entry parse (columnName seriesMetadata)) result entries)
                   (\<lambda>result'. Inr (result', seriesInfo @ [seriesMetadata])))
         | _ \<Rightarrow> Inr st))"

definition legend_line :: "series_info \<Rightarrow> string" where
  "legend_line info = ''# '' @ columnName info @ '': '' @ to_string (legendName info) @ ''\<newline>''"

text \<open>\<open>rowData?.[columnName] ?? ''\<close>\<close>

definition cell :: "row_data option \<Rightarrow> string \<Rightarrow> jsval" where
  "cell rowData column =
     (case rowData of
        None \<Rightarrow> JStr []
      | Some r \<Rightarrow> (case map_of r column of
                    None \<Rightarrow> JStr []
                  | Some v \<Rightarrow> if nullish v then JStr [] else v))"

definition data_row :: "result_map \<Rightarrow> string list \<Rightarrow> string \<Rightarrow> string" where
  "data_row result columnNames dateTime =
     (let rowData = map_of result dateTime;
          temp = map (cell rowData) columnNames
      in dateTime @ '','' @ js_join '','' temp @ ''\<newline>'')"

definition exportTimeSeriesData ::
  "(string \<Rightarrow> int option) \<Rightarrow> jsval \<Rightarrow> string \<Rightarrow> js_error + string" where
  "exportTimeSeriesData parse d title =
     bnd (get_prop d ''series'')
       (\<lambda>series.
          case series of
            JArr (s # ss) \<Rightarrow>
              bnd (for_each (process_series parse) ([], []) (enumerate 0 (s # ss)))
                (\<lambda>st. case st of (result, seriesInfo) \<Rightarrow>
                   (let columnNames = map columnName seriesInfo;
                        sortedDateTimes = sort (map fst result)
                    in Inr (''# Legend Information:\<newline>''
                            @ concat (map legend_line seriesInfo)
                            @ ''#\<newline>''
                            @ ''DateTime,'' @ join '','' columnNames @ ''\<newline>''
                            @ concat (map (data_row result columnNames) sortedDateTimes))))
          | _ \<Rightarrow> Inr [])"


section \<open>The stashed time-series serializer\<close>

text \<open>
  The stashed side of the conflicted PanelActions has an \<open>exportTimeSeriesData\<close> of its
  own. It names a column after \<open>series.name\<close>, skips a series without one, and hands the
  first element of every entry to \<open>Date\<close> as it is.
\<close>

definition formatSeriesTitle :: "jsval \<Rightarrow> nat \<Rightarrow> jsval" where
  "formatSeriesTitle seriesName seriesIndex = seriesName"

text \<open>
  \<open>new Date(v)\<close> on any value: a string is parsed; an array or an object is parsed as
  the string it prints as; anything else is converted to a number of milliseconds.
\<close>

definition new_Date_value :: "(string \<Rightarrow> int option) \<Rightarrow> jsval \<Rightarrow> int option" where
  "new_Date_value parse v =
     (case v of
        JStr s \<Rightarrow> new_Date_string parse s
      | JArr xs \<Rightarrow> new_Date_string parse (to_string v)
      | JObj fs \<Rightarrow> new_Date_string parse (to_string v)
      | _ \<Rightarrow> (case to_number v of None \<Rightarrow> None | Some n \<Rightarrow> new_Date n))"

text \<open>
  The body of the inner loop: \<open>entry[0]\<close> throws on \<open>null\<close> and \<open>undefined\<close>,
  \<open>toISOString\<close> on a value that is not a date. The row is keyed by the name, converted
  to a property key.
\<close>

definition process_entry_stashed ::
  "(string \<Rightarrow> int option) \<Rightarrow> jsval \<Rightarrow> result_map \<Rightarrow> jsval \<Rightarrow> js_error + result_map" where
  "process_entry_stashed parse name result entry =
     bnd (get_prop entry ''0'') (\<lambda>timestamp.
     bnd (toISOString (new_Date_value parse timestamp)) (\<lambda>dateTime.
     bnd (get_prop entry ''1'') (\<lambda>v.
       Inr (store result dateTime (to_string name) v))))"

definition process_series_stashed ::
  "(string \<Rightarrow> int option) \<Rightarrow> result_map \<times> jsval list \<Rightarrow> nat \<times> jsval
     \<Rightarrow> js_error + result_map \<times> jsval list" where
  "process_series_stashed parse st p =
     (case st of (result, seriesNames) \<Rightarrow>
      case p of (i, series) \<Rightarrow>
        if \<not> truthy (if nullish series then JUndefined else own_prop series ''name'')
        then Inr st
        else (case own_prop series ''values'' of
                JArr entries \<Rightarrow>
                  (let name = formatSeriesTitle (own_prop series ''name'') i
                   in if \<not> truthy name then Inr (result, seriesNames @ [name])
                      else bnd (for_each (process_entry_stashed parse name) result entries)
                             (\<lambda>result'. Inr (result', seriesNames @ [name])))
              | _ \<Rightarrow> Inr st))"

text \<open>
  \<open>Array.from(new Set(xs))\<close>: the first occurrence of every element, in order. A set
  compares primitives by value and objects by identity, and no two elements of the list
  are the same object.
\<close>

definition same_value_zero :: "jsval \<Rightarrow> jsval \<Rightarrow> bool" where
  "same_value_zero a b = (case a of JArr xs \<Rightarrow> False | JObj fs \<Rightarrow> False | _ \<Rightarrow> a = b)"

fun array_from_set :: "jsval list \<Rightarrow> jsval list" where
  "array_from_set [] = []"
| "array_from_set (x # xs) = x # array_from_set (filter (\<lambda>y. \<not> same_value_zero x y) xs)"

text \<open>A data row: \<open>rowData[name] ?? ''\<close> for every unique name.\<close>

definition data_row_stashed :: "result_map \<Rightarrow> jsval list \<Rightarrow> string \<Rightarrow> string" where
  "data_row_stashed result uniqueSeriesArray dateTime =
     (let rowData = map_of result dateTime;
          temp = (case rowData of
                    None \<Rightarrow> []
                  | Some r \<Rightarrow>
                      map (\<lambda>name. js_nc (case map_of r (to_string name) of
                                          None \<Rightarrow> JUndefined | Some v \<Rightarrow> v) (JStr []))
                          uniqueSeriesArray)
      in dateTime @ '','' @ js_join '','' temp @ ''\<newline>'')"

definition exportTimeSeriesData_stashed :: "(string \<Rightarrow> int option) \<Rightarrow> jsval \<Rightarrow> js_error + string" where
  "exportTimeSeriesData_stashed parse d =
     (if \<not> truthy d then Inr []
      else case own_prop d ''series'' of
             JArr (s # ss) \<Rightarrow>
               bnd (for_each (process_series_stashed parse) ([], []) (enumerate 0 (s # ss)))
                 (\<lambda>st. case st of (result, seriesNames) \<Rightarrow>
                    (let uniqueSeriesArray = array_from_set seriesNames;
                         sortedDateTimes = sort (map fst result)
                     in Inr (''DateTime,'' @ js_join '','' uniqueSeriesArray @ ''\<newline>''
                             @ concat (map (data_row_stashed result uniqueSeriesArray)
                                           sortedDateTimes))))
           | _ \<Rightarrow> Inr [])"

section \<open>The table and bar-chart serializers\<close>

text \<open>\<open>for (const x of v)\<close>: arrays and strings are iterable, other values throw.\<close>

definition iter :: "jsval \<Rightarrow> js_error + jsval list" where
  "iter v = (case v of JArr xs \<Rightarrow> Inr xs | JStr s \<Rightarrow> Inr (map (\<lambda>c. JStr [c]) s) | _ \<Rightarrow> Inl TypeError)"

text \<open>The receiver of \<open>v.map(...)\<close>: only an array has the method.\<close>

definition as_array :: "jsval \<Rightarrow> js_error + jsval list" where
  "as_array v = (case v of JArr xs \<Rightarrow> Inr xs | _ \<Rightarrow> Inl TypeError)"

definition dq :: char where
  "dq = CHR 0x22"

text \<open>\<open>value.replace(/"/g, '""')\<close>\<close>

definition double_quotes :: "string \<Rightarrow> string" where
  "double_quotes s = concat (map (\<lambda>c. if c = dq then [dq, dq] else [c]) s)"

definition column_line :: "jsval \<Rightarrow> js_error + string" where
  "column_line column =
     bnd (get_prop column ''displayName'') (\<lambda>dn.
     bnd (get_prop column ''name'') (\<lambda>nm.
     bnd (get_prop column ''type'') (\<lambda>ty.
       (let displayName = js_or dn nm;
            type = (if truthy ty then '' ('' @ to_string ty @ '')'' else [])
        in Inr (''# '' @ to_string nm @ '': '' @ to_string displayName @ type @ ''\<newline>'')))))"

definition column_header :: "jsval \<Rightarrow> js_error + jsval" where
  "column_header col =
     bnd (get_prop col ''displayName'') (\<lambda>dn.
     bnd (get_prop col ''name'') (\<lambda>nm. Inr (js_or dn nm)))"

text \<open>
  A table cell: \<open>null\<close> and \<open>undefined\<close> print as nothing; a string is quoted, with its
  double quotes doubled, only when it contains a comma; anything else goes through
  \<open>String\<close>.
\<close>

definition table_cell :: "jsval \<Rightarrow> jsval \<Rightarrow> js_error + string" where
  "table_cell row col =
     bnd (get_prop col ''name'') (\<lambda>nm.
     bnd (get_prop row (to_string nm)) (\<lambda>v.
       Inr (if nullish v then []
            else case v of
                   JStr s \<Rightarrow> if CHR '','' \<in> set s then [dq] @ double_quotes s @ [dq] else s
                 | _ \<Rightarrow> to_string v)))"

definition table_row :: "jsval \<Rightarrow> jsval \<Rightarrow> js_error + string" where
  "table_row columns row =
     bnd (as_array columns) (\<lambda>cols.
     bnd (map_res (table_cell row) cols) (\<lambda>vs. Inr (join '','' vs @ ''\<newline>'')))"

definition exportTableData :: "jsval \<Rightarrow> string \<Rightarrow> js_error + string" where
  "exportTableData d title =
     bnd (get_prop d ''columns'') (\<lambda>columns.
     bnd (get_prop d ''rows'') (\<lambda>rows.
       if \<not> truthy columns \<or> \<not> truthy rows then Inr []
       else
         bnd (iter columns) (\<lambda>cols.
         bnd (map_res column_line cols) (\<lambda>info.
         bnd (as_array columns) (\<lambda>cols'.
         bnd (map_res column_header cols') (\<lambda>headers.
         bnd (iter rows) (\<lambda>rs.
         bnd (map_res (table_row columns) rs) (\<lambda>lines.
           Inr (''# Column Information:\<newline>'' @ concat info @ ''#\<newline>''
                @ js_join '','' headers @ ''\<newline>'' @ concat lines)))))))))"

text \<open>\<open>d.xAxis?.title\<close>\<close>

definition axis_title :: "jsval \<Rightarrow> string \<Rightarrow> jsval" where
  "axis_title d axis = (if nullish (own_prop d axis) then JUndefined else own_prop (own_prop d axis) ''title'')"

definition series_line :: "nat \<times> jsval \<Rightarrow> string" where
  "series_line p =
     (case p of (i, series) \<Rightarrow>
        if \<not> truthy series then []
        else ''# Series_'' @ decimal (i + 1) @ '': ''
             @ to_string (js_or (own_prop series ''displayName'') (own_prop series ''name''))
             @ ''\<newline>'')"

text \<open>\<open>series.data[i]\<close>, printed with \<open>String\<close> unless it is \<open>undefined\<close>.\<close>

definition bar_value :: "nat \<Rightarrow> jsval \<Rightarrow> js_error + string" where
  "bar_value i series =
     bnd (get_prop series ''data'') (\<lambda>dat.
     bnd (get_prop dat (decimal i)) (\<lambda>v.
       Inr (if v \<noteq> JUndefined then to_string v else [])))"

definition bar_row :: "jsval \<Rightarrow> jsval list \<Rightarrow> nat \<Rightarrow> js_error + string" where
  "bar_row categories series i =
     bnd (map_res (bar_value i) series) (\<lambda>vs.
       Inr (to_string (own_prop categories (decimal i)) @ '','' @ join '','' vs @ ''\<newline>''))"

text \<open>
  The number of turns of \<open>for (let i = 0; i < v.length; i++)\<close>: the test converts
  \<open>v.length\<close> to a number, and a \<open>length\<close> that converts to NaN ends the loop at once.
\<close>

definition loop_bound :: "jsval \<Rightarrow> nat" where
  "loop_bound v = (case to_number (own_prop v ''length'') of Some n \<Rightarrow> nat n | None \<Rightarrow> 0)"

text \<open>
  \<open>exportBarChartData\<close>. A \<open>series\<close> that is truthy but not an array gets through the
  series-information loop, whose body cannot throw, and fails at \<open>data.series.map\<close>.
\<close>

definition exportBarChartData :: "jsval \<Rightarrow> string \<Rightarrow> js_error + string" where
  "exportBarChartData d title =
     bnd (get_prop d ''categories'') (\<lambda>categories.
     bnd (get_prop d ''series'') (\<lambda>series.
       if \<not> truthy categories \<or> \<not> truthy series then Inr []
       else
         bnd (as_array series) (\<lambda>ss.
         bnd (map_res (bar_row categories ss) [0..<loop_bound categories]) (\<lambda>lines.
           Inr (''# Axis Information:\<newline>''
                @ (if truthy (axis_title d ''xAxis'')
                   then ''# X-Axis: '' @ to_string (axis_title d ''xAxis'') @ ''\<newline>'' else [])
                @ (if truthy (axis_title d ''yAxis'')
                   then ''# Y-Axis: '' @ to_string (axis_title d ''yAxis'') @ ''\<newline>'' else [])
                @ ''# Series Information:\<newline>''
                @ concat (map series_line (enumerate 0 ss))
                @ ''#\<newline>''
                @ ''Category,''
                @ join '','' (map (\<lambda>index. ''Series_'' @ decimal (index + 1)) [0..<length ss])
                @ ''\<newline>''
                @ concat lines)))))"

section \<open>The export handler and the export button\<close>

definition shape_name :: "shape \<Rightarrow> string" where
  "shape_name t =
     (case t of Timeseries \<Rightarrow> ''timeseries'' | Table \<Rightarrow> ''table''
              | Barchart \<Rightarrow> ''barchart'' | Unknown \<Rightarrow> ''unknown'')"

definition hasExportableData :: "jsval \<Rightarrow> js_error + bool" where
  "hasExportableData d = bnd (detectDataType d) (\<lambda>dataType. Inr (dataType \<noteq> Unknown))"

text \<open>What clicking the export button leaves behind: a file offered for download.\<close>

record download =
  filename :: string
  mime :: string
  content :: string

text \<open>
  The handler returned by \<open>createCsvExportHandler\<close>, run once. \<open>now\<close> is the clock
  reading \<open>new Date().toISOString()\<close>. \<open>None\<close> is a return without a download.
\<close>

definition createCsvExportHandler ::
  "(string \<Rightarrow> int option) \<Rightarrow> string \<Rightarrow> string \<Rightarrow> jsval \<Rightarrow> shape option
     \<Rightarrow> js_error + download option" where
  "createCsvExportHandler parse now title queryResults dataType =
     (if \<not> truthy queryResults then Inr None
      else
        bnd (case dataType of Some t \<Rightarrow> Inr t | None \<Rightarrow> detectDataType queryResults)
          (\<lambda>detectedType.
             (let csvString = ''# Chart: '' @ title @ ''\<newline>''
                              @ ''# Data Type: '' @ shape_name detectedType @ ''\<newline>''
                              @ ''# Exported: '' @ now @ ''\<newline>'';
                  save = (\<lambda>body. Inr (Some \<lparr>filename = title @ ''_'' @ shape_name detectedType
                                                        @ ''_data.csv'',
                                             mime = ''text/csv'',
                                             content = csvString @ body\<rparr>))
              in case detectedType of
                   Timeseries \<Rightarrow> bnd (exportTimeSeriesData parse queryResults title) save
                 | Table \<Rightarrow> bnd (exportTableData queryResults title) save
                 | Barchart \<Rightarrow> bnd (exportBarChartData queryResults title) save
                 | Unknown \<Rightarrow> Inr None)))"

text \<open>
  \<open>csvExportButton\<close>: \<open>None\<close> when nothing is rendered, otherwise the tooltip of the
  button.
\<close>

definition csvExportButton :: "jsval \<Rightarrow> shape option \<Rightarrow> js_error + string option" where
  "csvExportButton queryResults dataType =
     bnd (hasExportableData queryResults) (\<lambda>hasExportableDataCheck.
       if \<not> hasExportableDataCheck then Inr None
       else
         bnd (case dataType of Some t \<Rightarrow> Inr t | None \<Rightarrow> detectDataType queryResults)
           (\<lambda>detectedType. Inr (Some (''Export '' @ shape_name detectedType @ '' data as CSV''))))"


section \<open>Query results and the classifier of PanelHeader\<close>

text \<open>
  An error carried by a query result, as the state indicator reads it: its \<open>message\<close>
  property and what its \<open>toString()\<close> returns.
\<close>

record QError =
  message :: jsval
  toString :: jsval

record QueryData =
  data :: jsval
  isFetching :: bool
  error :: "QError option"

text \<open>\<open>k in v\<close>: own keys only; it throws on a value that is not an object.\<close>

definition has_key :: "string \<Rightarrow> jsval \<Rightarrow> js_error + bool" where
  "has_key k v =
     (case v of
        JObj fs \<Rightarrow> Inr (k \<in> fst ` set fs)
      | JArr xs \<Rightarrow> Inr (k = ''length'' \<or> index_of_key (length xs) k \<noteq> None)
      | _ \<Rightarrow> Inl TypeError)"

text \<open>\<open>xs.every(f)\<close> and \<open>xs.some(f)\<close> with a callback that may throw.\<close>

fun every_res :: "('a \<Rightarrow> js_error + bool) \<Rightarrow> 'a list \<Rightarrow> js_error + bool" where
  "every_res f [] = Inr True"
| "every_res f (x # xs) = bnd (f x) (\<lambda>b. if b then every_res f xs else Inr False)"

fun some_res :: "('a \<Rightarrow> js_error + bool) \<Rightarrow> 'a list \<Rightarrow> js_error + bool" where
  "some_res f [] = Inr False"
| "some_res f (x # xs) = bnd (f x) (\<lambda>b. if b then Inr True else some_res f xs)"

fun is_string :: "jsval \<Rightarrow> bool" where
  "is_string (JStr s) = True"
| "is_string v = False"

text \<open>\<open>typeof v === 'object'\<close>, which holds of \<open>null\<close> too.\<close>

fun typeof_object :: "jsval \<Rightarrow> bool" where
  "typeof_object JNull = True"
| "typeof_object (JArr xs) = True"
| "typeof_object (JObj fs) = True"
| "typeof_object v = False"

definition object_keys :: "jsval \<Rightarrow> string list" where
  "object_keys v =
     (case v of JObj fs \<Rightarrow> map fst fs
              | JArr xs \<Rightarrow> map decimal [0..<length xs]
              | _ \<Rightarrow> [])"

definition bar_series_ok :: "jsval \<Rightarrow> js_error + bool" where
  "bar_series_ok s =
     bnd (get_prop s ''name'') (\<lambda>nm.
       if \<not> is_string nm then Inr False
       else bnd (get_prop s ''data'') (\<lambda>dat. Inr (is_array dat)))"

definition dataset_to_bar_series :: "nat \<times> jsval \<Rightarrow> js_error + jsval" where
  "dataset_to_bar_series p =
     (case p of (index, dataset) \<Rightarrow>
        bnd (get_prop dataset ''label'') (\<lambda>label.
          (let nm = js_or label (JStr (''Dataset '' @ decimal (index + 1)))
           in Inr (JObj [(''name'', nm), (''displayName'', nm),
                         (''data'', js_or (own_prop dataset ''data'') (JArr [])),
                         (''color'', js_or (own_prop dataset ''backgroundColor'')
                                           (own_prop dataset ''borderColor''))]))))"

definition time_like_point :: "jsval \<Rightarrow> js_error + bool" where
  "time_like_point point =
     (if is_array point \<and> 2 \<le> length (case point of JArr xs \<Rightarrow> xs | _ \<Rightarrow> []) then Inr True
      else if typeof_object point
      then bnd (get_prop point ''x'') (\<lambda>x.
             if x \<noteq> JUndefined then Inr True
             else bnd (get_prop point ''t'') (\<lambda>t. Inr (t \<noteq> JUndefined)))
      else Inr False)"

definition dataset_has_time :: "jsval \<Rightarrow> js_error + bool" where
  "dataset_has_time dataset =
     bnd (get_prop dataset ''data'') (\<lambda>dat.
       case dat of JArr points \<Rightarrow> some_res time_like_point points | _ \<Rightarrow> Inr False)"

definition point_to_entry :: "jsval \<Rightarrow> js_error + jsval" where
  "point_to_entry point =
     (if is_array point then Inr point
      else if typeof_object point
      then bnd (get_prop point ''x'') (\<lambda>x.
             Inr (JArr [js_or (js_or x (own_prop point ''t'')) (own_prop point ''timestamp''),
                        js_or (own_prop point ''y'') (own_prop point ''value'')]))
      else Inr (JArr [JNum 0, point]))"

definition dataset_to_series :: "jsval \<Rightarrow> js_error + jsval" where
  "dataset_to_series dataset =
     bnd (get_prop dataset ''label'') (\<lambda>label.
     bnd (as_array (own_prop dataset ''data'')) (\<lambda>points.
     bnd (map_res point_to_entry points) (\<lambda>vs.
       Inr (JObj [(''name'', js_or label (JStr ''Series'')),
                  (''displayName'', js_or label (JStr ''Series'')),
                  (''values'', JArr vs)]))))"

text \<open>The array-of-objects heuristic: the keys of the first item become the columns.\<close>

definition flat_table :: "jsval \<Rightarrow> (jsval \<times> shape) option" where
  "flat_table d =
     (case d of
        JArr (firstItem # items) \<Rightarrow>
          if typeof_object firstItem \<and> firstItem \<noteq> JNull
          then Some (JObj [(''columns'',
                            JArr (map (\<lambda>key. JObj [(''name'', JStr key), (''displayName'', JStr key)])
                                      (object_keys firstItem))),
                           (''rows'', d)], Table)
          else None
      | _ \<Rightarrow> None)"

text \<open>The \<open>labels\<close>/\<open>datasets\<close> conventions.\<close>

definition chart_formats :: "jsval \<Rightarrow> js_error + (jsval \<times> shape) option" where
  "chart_formats d =
     (if truthy (own_prop d ''labels'') \<and> truthy (own_prop d ''datasets'')
      then bnd (as_array (own_prop d ''datasets'')) (\<lambda>datasets.
           bnd (map_res dataset_to_bar_series (enumerate 0 datasets)) (\<lambda>ss.
             Inr (Some (JObj [(''categories'', own_prop d ''labels''),
                              (''series'', JArr ss),
                              (''xAxis'', js_or (own_prop d ''xAxis'')
                                                (JObj [(''title'', JStr ''Categories'')])),
                              (''yAxis'', js_or (own_prop d ''yAxis'')
                                                (JObj [(''title'', JStr ''Values'')]))],
                        Barchart))))
      else (case own_prop d ''datasets'' of
              JArr datasets \<Rightarrow>
                bnd (some_res dataset_has_time datasets) (\<lambda>hasTimeData.
                  if hasTimeData
                  then bnd (map_res dataset_to_series datasets) (\<lambda>ss.
                         Inr (Some (JObj [(''series'', JArr ss)], Timeseries)))
                  else Inr None)
            | _ \<Rightarrow> Inr None))"

definition bar_probe :: "jsval \<Rightarrow> js_error + bool" where
  "bar_probe d =
     (if is_array (own_prop d ''categories'')
      then (case own_prop d ''series'' of
              JArr ss \<Rightarrow> every_res bar_series_ok ss
            | _ \<Rightarrow> Inr False)
      else Inr False)"

text \<open>
  One turn of the loop of \<open>extractDataForExport\<close> on \<open>query.data\<close>: \<open>Some\<close> is the
  \<open>return\<close>, \<open>None\<close> goes on to the next query. The time-series probe asks only that
  \<open>series\<close> be an array.
\<close>

definition probe :: "jsval \<Rightarrow> js_error + (jsval \<times> shape) option" where
  "probe d =
     (if \<not> truthy d then Inr None
      else
        bnd (has_key ''series'' d) (\<lambda>hasSeries.
        if hasSeries \<and> is_array (own_prop d ''series'') then Inr (Some (d, Timeseries))
        else
          bnd (has_key ''columns'' d) (\<lambda>hasColumns.
          bnd (has_key ''rows'' d) (\<lambda>hasRows.
          if hasColumns \<and> hasRows then Inr (Some (d, Table))
          else
            bnd (has_key ''categories'' d) (\<lambda>hasCategories.
            bnd (if hasCategories \<and> hasSeries then bar_probe d else Inr False) (\<lambda>bar.
            if bar
            then Inr (Some (JObj [(''categories'', own_prop d ''categories''),
                                  (''series'', own_prop d ''series''),
                                  (''xAxis'', own_prop d ''xAxis''),
                                  (''yAxis'', own_prop d ''yAxis''),
                                  (''metadata'', own_prop d ''metadata'')], Barchart))
            else (case flat_table d of
                    Some found \<Rightarrow> Inr (Some found)
                  | None \<Rightarrow> chart_formats d)))))))"

fun extractDataForExport :: "QueryData list \<Rightarrow> js_error + jsval \<times> shape" where
  "extractDataForExport [] = Inr (JUndefined, Unknown)"
| "extractDataForExport (query # queryResults) =
     bnd (probe (data query))
       (\<lambda>r. case r of Some found \<Rightarrow> Inr found | None \<Rightarrow> extractDataForExport queryResults)"

section \<open>The state indicator\<close>

datatype indicator = Loading | ErrorTooltip string | NoIndicator

definition error_text :: "QError \<Rightarrow> jsval" where
  "error_text e = js_nc (js_nc (message e) (toString e)) (JStr ''Unknown error'')"

text \<open>
  \<open>queryStateIndicator\<close> has three versions. The first is the upstream side of the
  conflicted PanelActions, over the query results of the panel: the loading test comes
  first, the error test second.
\<close>

definition queryStateIndicator :: "QueryData list \<Rightarrow> indicator" where
  "queryStateIndicator queryResults =
     (let hasData = list_ex (\<lambda>q. truthy (data q)) queryResults;
          isFetching = list_ex isFetching queryResults;
          queryErrors = filter (\<lambda>q. error q \<noteq> None) queryResults
      in if isFetching \<and> hasData then Loading
         else if 0 < length queryErrors
         then ErrorTooltip (js_join ''\<newline>'' (map error_text (map (\<lambda>q. the (error q)) queryErrors)))
         else NoIndicator)"

text \<open>
  The stashed side of the same file receives any value as \<open>queryResults\<close>, computes
  \<open>hasData\<close> from its shape, and sets \<open>isFetching\<close> and \<open>queryErrors\<close> to constants
  before the same two tests. \<open>hasData\<close> is kept as the truth value it is tested for.
\<close>

definition isTimeSeriesData :: "jsval \<Rightarrow> bool" where
  "isTimeSeriesData d =
     (truthy d \<and> typeof_object d \<and> has_key ''series'' d = Inr True
      \<and> is_array (own_prop d ''series''))"

definition isBarChartData :: "jsval \<Rightarrow> bool" where
  "isBarChartData d =
     (truthy d \<and> typeof_object d
      \<and> ((has_key ''categories'' d = Inr True \<and> has_key ''series'' d = Inr True)
           \<or> (has_key ''data'' d = Inr True \<and> is_array (own_prop d ''data''))))"

definition isTableData :: "jsval \<Rightarrow> bool" where
  "isTableData d =
     (truthy d \<and> typeof_object d \<and> has_key ''columns'' d = Inr True
      \<and> has_key ''rows'' d = Inr True)"

text \<open>\<open>v && Array.isArray(v) && v.length > 0\<close>\<close>

definition non_empty_array :: "jsval \<Rightarrow> bool" where
  "non_empty_array v = (case v of JArr (x # xs) \<Rightarrow> True | _ \<Rightarrow> False)"

definition queryStateIndicator_stashed :: "jsval \<Rightarrow> indicator" where
  "queryStateIndicator_stashed queryResults =
     (let hasData =
            (truthy queryResults
             \<and> (if is_array queryResults then non_empty_array queryResults
                  else if isTimeSeriesData queryResults
                  then non_empty_array (own_prop queryResults ''series'')
                  else if isBarChartData queryResults
                  then non_empty_array (own_prop queryResults ''data'')
                       \<or> (truthy (own_prop queryResults ''series'')
                           \<and> js_gt (own_prop (own_prop queryResults ''series'') ''length'') 0)
                  else if isTableData queryResults
                  then non_empty_array (own_prop queryResults ''rows'')
                  else if typeof_object queryResults \<and> has_key ''spans'' queryResults = Inr True
                  then non_empty_array (own_prop queryResults ''spans'')
                  else if typeof_object queryResults then object_keys queryResults \<noteq> []
                  else False));
          isFetching = False;
          queryErrors = ([] :: QueryData list)
      in if isFetching \<and> hasData then Loading
         else if 0 < length queryErrors
         then ErrorTooltip (js_join ''\<newline>'' (map error_text (map (\<lambda>q. the (error q)) queryErrors)))
         else NoIndicator)"

text \<open>
  The conflict-free PanelActions receives the payload that PanelHeader extracted, and has
  the same two constants. \<open>v?.length\<close> is \<open>undefined\<close> when \<open>v\<close> is \<open>null\<close> or
  \<open>undefined\<close>.
\<close>

definition optional_length :: "jsval \<Rightarrow> jsval" where
  "optional_length v = (if nullish v then JUndefined else own_prop v ''length'')"

definition queryStateIndicator_payload :: "jsval \<Rightarrow> indicator" where
  "queryStateIndicator_payload queryResults =
     (let hasData =
            (truthy queryResults
             \<and> (js_gt (optional_length (own_prop queryResults ''series'')) 0
                  \<or> js_gt (optional_length (own_prop queryResults ''rows'')) 0
                  \<or> js_gt (optional_length (own_prop queryResults ''categories'')) 0));
          isFetching = False;
          queryErrors = ([] :: QueryData list)
      in if isFetching \<and> hasData then Loading
         else if 0 < length queryErrors
         then ErrorTooltip (js_join ''\<newline>'' (map error_text (map (\<lambda>q. the (error q)) queryErrors)))
         else NoIndicator)"

text \<open>
  What PanelHeader shows for the query results of the panel: it hands the data found by
  \<open>extractDataForExport\<close> to the conflict-free PanelActions as \<open>queryResults\<close>, and the
  indicator is computed from that payload alone.
\<close>

definition PanelHeader_indicator :: "QueryData list \<Rightarrow> js_error + indicator" where
  "PanelHeader_indicator queryResults =
     bnd (extractDataForExport queryResults)
       (\<lambda>found. case found of (exportableData, detectedType) \<Rightarrow>
          Inr (queryStateIndicator_payload exportableData))"

section \<open>Reading the output of the time-series serializer\<close>

text \<open>
  The functions of this section are not code of the panel: they say, from the payload
  alone, what the serializer is expected to have written, and the theorems below compare
  them with what it wrote. A series gets a column when it is truthy and its \<open>values\<close>
  is an array; \<open>serialized\<close> lists those series with their index in \<open>data.series\<close>.
\<close>

definition column_of :: "nat \<Rightarrow> string" where
  "column_of i = ''Series_'' @ decimal (i + 1)"



definition entries_of :: "jsval \<Rightarrow> jsval list" where
  "entries_of series = (case own_prop series ''values'' of JArr es \<Rightarrow> es | _ \<Rightarrow> [])"

text \<open>
  The timestamp string and the value an entry contributes: nothing unless it is an array
  of two or more elements whose first element converts to a date.
\<close>

definition point_of :: "(string \<Rightarrow> int option) \<Rightarrow> jsval \<Rightarrow> (string \<times> jsval) option" where
  "point_of parse entry =
     (case entry of
        JArr es \<Rightarrow>
          if length es < 2 then None
          else (case dateTime_of parse (es ! 0) of
                  Some (Inr dateTime) \<Rightarrow> Some (dateTime, es ! 1)
                | _ \<Rightarrow> None)
      | _ \<Rightarrow> None)"

definition points :: "(string \<Rightarrow> int option) \<Rightarrow> jsval \<Rightarrow> (string \<times> jsval) list" where
  "points parse series = List.map_filter (point_of parse) (entries_of series)"




text \<open>The accumulator \<open>result\<close> as a two-level lookup, and the loops as folds.\<close>

definition lookup :: "result_map \<Rightarrow> string \<Rightarrow> string \<Rightarrow> jsval option" where
  "lookup r dateTime c = (case map_of r dateTime of None \<Rightarrow> None | Some row \<Rightarrow> map_of row c)"







section \<open>Reading the output of the stashed time-series serializer\<close>













section \<open>Timestamp strings and instants\<close>










section \<open>Basic facts about the value layer\<close>

lemma bnd_Inl [simp]: "bnd (Inl e) f = Inl e"
  by (simp add: bnd_def)

lemma bnd_Inr [simp]: "bnd (Inr x) f = f x"
  by (simp add: bnd_def)


lemma is_array_iff: "is_array v \<longleftrightarrow> (\<exists>xs. v = JArr xs)"
  by (cases v) simp_all

lemma is_array_truthy: "is_array v \<Longrightarrow> truthy v"
  by (cases v) simp_all


lemma own_prop_nullish: "nullish v \<Longrightarrow> own_prop v k = JUndefined"
  by (cases v) simp_all

lemma map_res_total:
  assumes "\<And>x. x \<in> set xs \<Longrightarrow> \<exists>y. f x = Inr y"
  shows "\<exists>ys. map_res f xs = Inr ys"
  using assms
proof (induction xs)
  case Nil
  then show ?case by simp
next
  case (Cons x xs)
  then obtain y ys where "f x = Inr y" and "map_res f xs = Inr ys"
    by (metis list.set_intros(1) list.set_intros(2))
  then show ?case by simp
qed

lemma js_join_strings:
  "\<forall>x \<in> set xs. \<not> nullish x \<Longrightarrow> js_join sep xs = join sep (map to_string xs)"
  unfolding js_join_def by (rule arg_cong [where f = "join sep"]) simp

subsection \<open>Printing numbers and dates\<close>

lemma decimal_numeral:
  "decimal (numeral k) =
     (if (10::nat) \<le> numeral k then decimal (numeral k div 10) @ [digit_char (numeral k mod 10)]
      else [digit_char (numeral k)])"
  by (rule decimal.simps)

lemma decimal_digit: "n < 10 \<Longrightarrow> decimal n = [digit_char n]"
  by (subst decimal.simps) simp

lemma replicate_num: "replicate (numeral k) x = x # replicate (pred_numeral k) x"
  by (simp add: numeral_eq_Suc)

lemmas print_simps = decimal_numeral decimal_digit digit_char_def pad_left_def iso_year_def
  replicate_num number_to_string_def

lemma civil_epoch: "civil_from_days 0 = (1970, 1, 1)"
  by code_simp



lemma iso_epoch: "iso_of_time 0 = ''1970-01-01T00:00:00.000Z''"
  by (simp add: iso_of_time_def civil_epoch print_simps)







subsection \<open>The classifiers\<close>

lemma first_series_decides:
  assumes "map_of fs ''series'' = Some (JArr (s # ss))"
  shows "detectDataType (JObj fs) = Inr Timeseries \<longleftrightarrow> is_array (own_prop s ''values'')"
proof (cases "nullish s")
  case True
  then show ?thesis using assms
    by (simp add: detectDataType_def get_prop_def own_prop_nullish)
next
  case False
  then show ?thesis using assms
    by (auto simp add: detectDataType_def get_prop_def is_array_truthy
        split: jsval.splits list.splits)
qed

lemma probe_series_array:
  assumes "map_of fs ''series'' = Some (JArr xs)"
  shows "probe (JObj fs) = Inr (Some (JObj fs, Timeseries))"
proof -
  from assms have "(''series'', JArr xs) \<in> set fs" by (rule map_of_SomeD)
  then have "''series'' \<in> fst ` set fs" by force
  then show ?thesis using assms by (simp add: probe_def has_key_def)
qed

lemma extract_skips_falsy:
  assumes "\<forall>q \<in> set pre. \<not> truthy (data q)"
  shows "extractDataForExport (pre @ qs) = extractDataForExport qs"
  using assms by (induction pre) (simp_all add: probe_def)

subsection \<open>The loops of the time-series serializer\<close>

lemma process_entry_number:
  "process_entry parse c r (JArr (JNum t # v # rest))
     = bnd (toISOString (new_Date (if 10000000000 < t then t else t * 1000)))
         (\<lambda>dateTime. Inr (store r dateTime c v))"
  by (simp add: process_entry_def dateTime_of_def)









lemma columnName_legend [simp]: "columnName (getSeriesLegendName s i) = column_of i"
  by (simp add: getSeriesLegendName_def column_of_def)





lemma lookup_empty [simp]: "lookup [] dateTime c = None"
  by (simp add: lookup_def)



















subsection \<open>The calendar is monotone\<close>














subsection \<open>Fixed-width numerals and the order of timestamp strings\<close>






















subsection \<open>When the time-series serializer returns\<close>













lemma malformed_entries_skipped:
  "\<not> is_array e \<Longrightarrow> process_entry parse c r e = Inr r"
  "length es < 2 \<Longrightarrow> process_entry parse c r (JArr es) = Inr r"
  "2 \<le> length es \<Longrightarrow> dateTime_of parse (es ! 0) = None \<Longrightarrow> process_entry parse c r (JArr es) = Inr r"
  "\<not> is_array (own_prop series ''values'') \<Longrightarrow> process_series parse st (i, series) = Inr st"
  by (auto simp add: process_entry_def process_series_def is_array_iff
      split: jsval.splits prod.splits)

lemma other_timestamps_skipped:
  "(\<forall>t. ts \<noteq> JNum t) \<Longrightarrow> (\<forall>s. ts \<noteq> JStr s) \<Longrightarrow> dateTime_of parse ts = None"
  by (cases ts) (simp_all add: dateTime_of_def)

subsection \<open>The loops of the stashed time-series serializer\<close>











lemma index_zero: "index_of_key (Suc n) ''0'' = Some 0"
  by (simp add: index_of_key_def upt_conv_Cons decimal_digit digit_char_def del: upt_Suc)

lemma index_one: "index_of_key (Suc (Suc n)) ''1'' = Some 1"
  by (simp add: index_of_key_def upt_conv_Cons decimal_digit digit_char_def del: upt_Suc)














lemma number_entry_stashed:
  "process_entry_stashed parse name r (JArr (JNum t # v # rest))
     = bnd (toISOString (new_Date t)) (\<lambda>dateTime. Inr (store r dateTime (to_string name) v))"
  by (simp add: process_entry_stashed_def get_prop_def new_Date_value_def index_zero index_one)




subsection \<open>The stashed serializer on small payloads\<close>





lemmas run_stashed = exportTimeSeriesData_stashed_def process_series_stashed_def
  number_entry_stashed formatSeriesTitle_def toISOString_def new_Date_def store_def
  data_row_stashed_def js_nc_def js_join_def same_value_zero_def Let_def


lemma stashed_same_name_example:
  "exportTimeSeriesData_stashed parse
     (JObj [(''series'',
             JArr [JObj [(''name'', JStr ''cpu''), (''values'', JArr [JArr [JNum 0, JNum 1]])],
                   JObj [(''name'', JStr ''mem''), (''values'', JArr [JArr [JNum 0, JNum 7]])],
                   JObj [(''name'', JStr ''cpu''), (''values'', JArr [JArr [JNum 0, JNum 2]])]])])
   = Inr ''DateTime,cpu,mem\<newline>1970-01-01T00:00:00.000Z,2,7\<newline>''"
  by (simp add: run_stashed iso_epoch print_simps)
subsection \<open>The serializer on small payloads\<close>





text \<open>
  A payload with an empty \<open>series\<close> array beside a table: PanelHeader finds a time
  series, PanelActions finds a table and renders the export button, and the click
  downloads the three comment lines, the time-series serializer having returned the
  empty string.
\<close>

lemma empty_series_beside_table:
  "extractDataForExport
     [\<lparr>data = JObj [(''series'', JArr []), (''columns'', JArr [JObj [(''name'', JStr ''c'')]]),
                    (''rows'', JArr [JObj [(''c'', JNum 1)]])],
       isFetching = False, error = None\<rparr>]
   = Inr (JObj [(''series'', JArr []), (''columns'', JArr [JObj [(''name'', JStr ''c'')]]),
                (''rows'', JArr [JObj [(''c'', JNum 1)]])], Timeseries)
   \<and> csvExportButton
       (JObj [(''series'', JArr []), (''columns'', JArr [JObj [(''name'', JStr ''c'')]]),
              (''rows'', JArr [JObj [(''c'', JNum 1)]])]) (Some Timeseries)
     = Inr (Some ''Export timeseries data as CSV'')
   \<and> createCsvExportHandler parse now title
       (JObj [(''series'', JArr []), (''columns'', JArr [JObj [(''name'', JStr ''c'')]]),
              (''rows'', JArr [JObj [(''c'', JNum 1)]])]) (Some Timeseries)
     = Inr (Some \<lparr>filename = title @ ''_timeseries_data.csv'', mime = ''text/csv'',
                  content = ''# Chart: '' @ title
                            @ ''\<newline># Data Type: timeseries\<newline># Exported: ''
                            @ now @ ''\<newline>''\<rparr>)"
  by (simp add: probe_def has_key_def csvExportButton_def hasExportableData_def
        detectDataType_def get_prop_def createCsvExportHandler_def shape_name_def
        exportTimeSeriesData_def)

subsection \<open>Rows in the order of their instants\<close>








section \<open>Claims about the classifier\<close>

text \<open>
  The two classifiers part only on the empty \<open>series\<close> array, which has no element to
  carry anything: \<open>detectDataType\<close> wants a first element and answers \<open>unknown\<close>,
  \<open>extractDataForExport\<close> wants an array and answers \<open>timeseries\<close>.
\<close>

lemma empty_series_classifiers:
  "detectDataType (JObj [(''series'', JArr []), (''categories'', JArr [])]) = Inr Unknown
   \<and> extractDataForExport [\<lparr>data = JObj [(''series'', JArr []), (''categories'', JArr [])],
                             isFetching = False, error = None\<rparr>]
       = Inr (JObj [(''series'', JArr []), (''categories'', JArr [])], Timeseries)"
  by (simp add: detectDataType_def probe_def has_key_def)

text \<open>
  C1. A payload object that holds a non-empty \<open>series\<close> array whose elements carry
  array-valued \<open>values\<close>, and a \<open>categories\<close> array, is a time series for both
  classifiers: \<open>detectDataType\<close> answers \<open>timeseries\<close>, and so does
  \<open>extractDataForExport\<close> on any list of query results in which this payload is the
  first truthy \<open>data\<close>. The time-series probe fires before the bar-chart probe in both,
  and \<open>isTimeSeriesData\<close>, the type guard that the stashed export handler tries before
  \<open>isBarChartData\<close>, holds of the payload too. The first element \<open>s\<close> of \<open>series\<close>
  is the only one asked for its \<open>values\<close>, so nothing is assumed of the later elements
  \<open>ss\<close>.
\<close>

theorem timeseries_probe_fires_first:
  assumes "map_of fs ''series'' = Some (JArr (s # ss))"
    and "is_array (own_prop s ''values'')"
    and "is_array (own_prop (JObj fs) ''categories'')"
    and "\<forall>q \<in> set pre. \<not> truthy (data q)"
    and "data query = JObj fs"
  shows "detectDataType (JObj fs) = Inr Timeseries
         \<and> extractDataForExport (pre @ query # post) = Inr (JObj fs, Timeseries)
         \<and> isTimeSeriesData (JObj fs)"
proof (intro conjI)
  show "detectDataType (JObj fs) = Inr Timeseries"
    using first_series_decides [OF assms(1)] assms(2) by simp
  have "extractDataForExport (pre @ query # post) = extractDataForExport (query # post)"
    using assms(4) by (rule extract_skips_falsy)
  also have "\<dots> = Inr (JObj fs, Timeseries)"
    using probe_series_array [OF assms(1)] assms(5) by simp
  finally show "extractDataForExport (pre @ query # post) = Inr (JObj fs, Timeseries)" .
  from assms(1) have "(''series'', JArr (s # ss)) \<in> set fs" by (rule map_of_SomeD)
  then have "''series'' \<in> fst ` set fs" by force
  then show "isTimeSeriesData (JObj fs)"
    using assms(1) by (simp add: isTimeSeriesData_def has_key_def)
qed

theorem timeseries_probe_fires_first_witness:
  "detectDataType
     (JObj [(''series'', JArr [JObj [(''name'', JStr ''a''), (''values'', JArr []),
                                     (''data'', JArr [JNum 1])]]),
            (''categories'', JArr [JStr ''x''])]) = Inr Timeseries
   \<and> extractDataForExport
       ([\<lparr>data = JUndefined, isFetching = True, error = None\<rparr>]
        @ \<lparr>data = JObj [(''series'', JArr [JObj [(''name'', JStr ''a''), (''values'', JArr []),
                                                (''data'', JArr [JNum 1])]]),
                        (''categories'', JArr [JStr ''x''])],
            isFetching = False, error = None\<rparr> # [])
     = Inr (JObj [(''series'', JArr [JObj [(''name'', JStr ''a''), (''values'', JArr []),
                                           (''data'', JArr [JNum 1])]]),
                  (''categories'', JArr [JStr ''x''])], Timeseries)"
  using timeseries_probe_fires_first
          [of "[(''series'', JArr [JObj [(''name'', JStr ''a''), (''values'', JArr []),
                                         (''data'', JArr [JNum 1])]]),
                (''categories'', JArr [JStr ''x''])]"
              "JObj [(''name'', JStr ''a''), (''values'', JArr []), (''data'', JArr [JNum 1])]"
              "[]"
              "[\<lparr>data = JUndefined, isFetching = True, error = None\<rparr>]"
              "\<lparr>data = JObj [(''series'', JArr [JObj [(''name'', JStr ''a''), (''values'', JArr []),
                                                      (''data'', JArr [JNum 1])]]),
                              (''categories'', JArr [JStr ''x''])],
                  isFetching = False, error = None\<rparr>"
              "[]"]
  by simp

text \<open>
  C9. For a payload object whose \<open>series\<close> field is a non-empty array,
  \<open>detectDataType\<close> answers \<open>timeseries\<close> exactly when the first element of
  \<open>series\<close> has an array-valued \<open>values\<close> field. The later elements \<open>ss\<close> do not
  occur on the right-hand side: they are never inspected, so a payload whose first series
  lacks \<open>values\<close> is not a time series whatever the later series hold.
\<close>

theorem detectDataType_first_series:
  assumes "map_of fs ''series'' = Some (JArr (s # ss))"
  shows "detectDataType (JObj fs) = Inr Timeseries \<longleftrightarrow> is_array (own_prop s ''values'')"
  using assms by (rule first_series_decides)

theorem detectDataType_first_series_witness:
  "detectDataType (JObj [(''series'', JArr [JObj [(''name'', JStr ''a'')],
                                            JObj [(''values'', JArr [])]])]) \<noteq> Inr Timeseries
   \<and> detectDataType (JObj [(''series'', JArr [JObj [(''values'', JArr [])],
                                              JObj [(''name'', JStr ''a'')]])]) = Inr Timeseries"
  using detectDataType_first_series
          [of "[(''series'', JArr [JObj [(''name'', JStr ''a'')], JObj [(''values'', JArr [])]])]"
              "JObj [(''name'', JStr ''a'')]" "[JObj [(''values'', JArr [])]]"]
        detectDataType_first_series
          [of "[(''series'', JArr [JObj [(''values'', JArr [])], JObj [(''name'', JStr ''a'')]])]"
              "JObj [(''values'', JArr [])]" "[JObj [(''name'', JStr ''a'')]]"]
  by simp

section \<open>Claims about the state indicator\<close>

lemma error_text_not_nullish: "\<not> nullish (error_text e)"
  by (simp add: error_text_def js_nc_def)

text \<open>
  The upstream side of \<open>queryStateIndicator\<close> is the one that reads the query results.
  It is \<open>Loading\<close> exactly when some result is fetching and some result has data; since
  that test comes first, \<open>Loading\<close> wins when a result also carries an error. Otherwise,
  when some result carries an error, it is the error tooltip whose text joins the texts of
  all the errors with newlines, in order; with no error it is nothing. The text of an
  error is its \<open>message\<close>, else what its \<open>toString()\<close> returns, else \<open>Unknown error\<close>.
\<close>

lemma upstream_indicator_precedence:
  "(queryStateIndicator qs = Loading
      \<longleftrightarrow> (\<exists>q \<in> set qs. isFetching q) \<and> (\<exists>q \<in> set qs. truthy (data q)))
   \<and> ((\<exists>q \<in> set qs. isFetching q) \<and> (\<exists>q \<in> set qs. truthy (data q))
        \<and> (\<exists>q \<in> set qs. error q \<noteq> None)
        \<longrightarrow> queryStateIndicator qs = Loading)
   \<and> (\<not> ((\<exists>q \<in> set qs. isFetching q) \<and> (\<exists>q \<in> set qs. truthy (data q)))
        \<and> (\<exists>q \<in> set qs. error q \<noteq> None)
        \<longrightarrow> queryStateIndicator qs
            = ErrorTooltip (join ''\<newline>'' (map (\<lambda>e. to_string (error_text e))
                                                   (List.map_filter error qs))))
   \<and> (\<not> ((\<exists>q \<in> set qs. isFetching q) \<and> (\<exists>q \<in> set qs. truthy (data q)))
        \<and> \<not> (\<exists>q \<in> set qs. error q \<noteq> None)
        \<longrightarrow> queryStateIndicator qs = NoIndicator)
   \<and> (nullish (message e) \<and> nullish (toString e) \<longrightarrow> error_text e = JStr ''Unknown error'')
   \<and> (\<not> nullish (message e) \<longrightarrow> error_text e = message e)
   \<and> (nullish (message e) \<and> \<not> nullish (toString e) \<longrightarrow> error_text e = toString e)"
proof -
  have errs: "map (\<lambda>q. the (error q)) (filter (\<lambda>q. error q \<noteq> None) qs) = List.map_filter error qs"
    by (induction qs) auto
  have texts: "js_join ''\<newline>'' (map error_text es)
                 = join ''\<newline>'' (map (\<lambda>e. to_string (error_text e)) es)" for es
    by (simp add: js_join_strings error_text_not_nullish comp_def)
  have nonempty: "0 < length (filter (\<lambda>q. error q \<noteq> None) qs) \<longleftrightarrow> (\<exists>q \<in> set qs. error q \<noteq> None)"
    by (auto simp add: filter_empty_conv)
  show ?thesis
    unfolding queryStateIndicator_def Let_def list_ex_iff errs texts nonempty
    by (auto simp add: error_text_def js_nc_def)
qed

lemma payload_indicator_nothing: "queryStateIndicator_payload d = NoIndicator"
  by (simp add: queryStateIndicator_payload_def)

lemma stashed_indicator_nothing: "queryStateIndicator_stashed q = NoIndicator"
  by (simp add: queryStateIndicator_stashed_def)

lemma header_indicator_nothing:
  "PanelHeader_indicator qs \<noteq> Inr Loading \<and> PanelHeader_indicator qs \<noteq> Inr (ErrorTooltip text)"
proof (cases "extractDataForExport qs")
  case (Inl e)
  then show ?thesis
    by (simp add: PanelHeader_indicator_def)
next
  case (Inr found)
  then show ?thesis
    by (cases found) (simp add: PanelHeader_indicator_def payload_indicator_nothing)
qed

text \<open>
  C8. The claim: the indicator is \<open>Loading\<close> when some result is fetching and some result
  has data, and otherwise the error tooltip when some result carries an error. The
  conflict-free PanelActions never shows either: its \<open>queryStateIndicator\<close> is nothing for
  every payload, and so is the stashed one for every value, because \<open>isFetching\<close> and
  \<open>queryErrors\<close> are the constants \<open>false\<close> and \<open>[]\<close> there. So PanelHeader shows
  neither \<open>Loading\<close> nor an error tooltip, whatever the query results: nothing for
  results of which one is fetching while another has data, where the upstream side shows
  \<open>Loading\<close>, and nothing for a result that carries the error \<open>boom\<close>, where the
  upstream side shows the tooltip \<open>boom\<close>.
\<close>

theorem state_indicator_never_shown:
  "queryStateIndicator_payload d = NoIndicator
   \<and> queryStateIndicator_stashed q = NoIndicator
   \<and> PanelHeader_indicator qs \<noteq> Inr Loading
   \<and> PanelHeader_indicator qs \<noteq> Inr (ErrorTooltip text)
   \<and> queryStateIndicator
       [\<lparr>data = JUndefined, isFetching = True, error = None\<rparr>,
        \<lparr>data = JObj [(''series'', JArr [JObj [(''values'', JArr [JArr [JNum 0, JNum 1]])]])],
         isFetching = False, error = None\<rparr>] = Loading
   \<and> PanelHeader_indicator
       [\<lparr>data = JUndefined, isFetching = True, error = None\<rparr>,
        \<lparr>data = JObj [(''series'', JArr [JObj [(''values'', JArr [JArr [JNum 0, JNum 1]])]])],
         isFetching = False, error = None\<rparr>] = Inr NoIndicator
   \<and> queryStateIndicator
       [\<lparr>data = JUndefined, isFetching = False,
         error = Some \<lparr>message = JStr ''boom'', toString = JStr ''Error: boom''\<rparr>\<rparr>]
     = ErrorTooltip ''boom''
   \<and> PanelHeader_indicator
       [\<lparr>data = JUndefined, isFetching = False,
         error = Some \<lparr>message = JStr ''boom'', toString = JStr ''Error: boom''\<rparr>\<rparr>]
     = Inr NoIndicator
   \<and> queryStateIndicator_stashed
       (JArr [JObj [(''data'', JUndefined), (''isFetching'', JBool False),
                    (''error'', JObj [(''message'', JStr ''boom'')])]])
     = NoIndicator"
proof (intro conjI)
  show "queryStateIndicator_payload d = NoIndicator"
    by (rule payload_indicator_nothing)
  show "queryStateIndicator_stashed q = NoIndicator"
    by (rule stashed_indicator_nothing)
  show "PanelHeader_indicator qs \<noteq> Inr Loading"
    using header_indicator_nothing by blast
  show "PanelHeader_indicator qs \<noteq> Inr (ErrorTooltip text)"
    using header_indicator_nothing by blast
  show "queryStateIndicator
       [\<lparr>data = JUndefined, isFetching = True, error = None\<rparr>,
        \<lparr>data = JObj [(''series'', JArr [JObj [(''values'', JArr [JArr [JNum 0, JNum 1]])]])],
         isFetching = False, error = None\<rparr>] = Loading"
    by (simp add: queryStateIndicator_def)
  show "PanelHeader_indicator
       [\<lparr>data = JUndefined, isFetching = True, error = None\<rparr>,
        \<lparr>data = JObj [(''series'', JArr [JObj [(''values'', JArr [JArr [JNum 0, JNum 1]])]])],
         isFetching = False, error = None\<rparr>] = Inr NoIndicator"
    by (simp add: PanelHeader_indicator_def probe_def has_key_def payload_indicator_nothing)
  show "queryStateIndicator
       [\<lparr>data = JUndefined, isFetching = False,
         error = Some \<lparr>message = JStr ''boom'', toString = JStr ''Error: boom''\<rparr>\<rparr>]
     = ErrorTooltip ''boom''"
    by (simp add: queryStateIndicator_def error_text_def js_nc_def js_join_def)
  show "PanelHeader_indicator
       [\<lparr>data = JUndefined, isFetching = False,
         error = Some \<lparr>message = JStr ''boom'', toString = JStr ''Error: boom''\<rparr>\<rparr>]
     = Inr NoIndicator"
    by (simp add: PanelHeader_indicator_def probe_def payload_indicator_nothing)
  show "queryStateIndicator_stashed
       (JArr [JObj [(''data'', JUndefined), (''isFetching'', JBool False),
                    (''error'', JObj [(''message'', JStr ''boom'')])]])
     = NoIndicator"
    by (rule stashed_indicator_nothing)
qed

theorem state_indicator_never_shown_witness:
  "queryStateIndicator_payload (JObj [(''series'', JArr [JObj [(''values'', JArr [])]])])
     = NoIndicator
   \<and> PanelHeader_indicator
       [\<lparr>data = JObj [(''series'', JArr [JObj [(''values'', JArr [])]])], isFetching = True,
         error = Some \<lparr>message = JStr ''boom'', toString = JStr ''Error: boom''\<rparr>\<rparr>]
     = Inr NoIndicator"
  using state_indicator_never_shown
          [of "JObj [(''series'', JArr [JObj [(''values'', JArr [])]])]" JNull
              "[\<lparr>data = JObj [(''series'', JArr [JObj [(''values'', JArr [])]])], isFetching = True,
                 error = Some \<lparr>message = JStr ''boom'', toString = JStr ''Error: boom''\<rparr>\<rparr>]"]
  by (simp add: PanelHeader_indicator_def probe_def has_key_def)

section \<open>Claims about timestamps\<close>




text \<open>
  C10. The claim: the time-series serializer never throws, whatever \<open>values\<close> holds.
  The entries and series the claim lists are skipped (lemmas \<open>malformed_entries_skipped\<close>
  and \<open>other_timestamps_skipped\<close>), but an entry whose timestamp is a number that is not
  a date gets past every guard and reaches \<open>toISOString\<close>, which throws: here 1e16
  milliseconds, beyond the 8.64e15 that a \<open>Date\<close> can hold.
\<close>

theorem invalid_date_throws:
  "exportTimeSeriesData parse
     (JObj [(''series'', JArr [JObj [(''name'', JStr ''a''),
                                     (''values'', JArr [JArr [JNum 10000000000000000, JNum 1]])]])])
     title
   = Inl RangeError"
  by (simp add: exportTimeSeriesData_def get_prop_def process_series_def process_entry_number
        getSeriesLegendName_def toISOString_def new_Date_def)

theorem invalid_date_throws_witness:
  "exportTimeSeriesData (\<lambda>s. None)
     (JObj [(''series'', JArr [JObj [(''name'', JStr ''a''),
                                     (''values'', JArr [JArr [JNum 10000000000000000, JNum 1]])]])])
     ''load''
   = Inl RangeError"
  by (rule invalid_date_throws)

section \<open>Claims about the export handler and the table cells\<close>

text \<open>
  C4. The claim: when serialization yields the empty string, the export handler does
  nothing. Whenever a serializer returns the empty string for a truthy payload, the handler
  returns normally and offers a file all the same: the three comment lines it writes
  before it calls the serializer. No exception escapes, but a download is produced.
\<close>

theorem handler_downloads_after_empty_serialization:
  assumes "truthy q"
  shows "(exportTimeSeriesData parse q title = Inr []
            \<longrightarrow> createCsvExportHandler parse now title q (Some Timeseries)
                = Inr (Some \<lparr>filename = title @ ''_timeseries_data.csv'', mime = ''text/csv'',
                             content = ''# Chart: '' @ title
                                       @ ''\<newline># Data Type: timeseries\<newline># Exported: ''
                                       @ now @ ''\<newline>''\<rparr>))
         \<and> (exportTableData q title = Inr []
            \<longrightarrow> createCsvExportHandler parse now title q (Some Table)
                = Inr (Some \<lparr>filename = title @ ''_table_data.csv'', mime = ''text/csv'',
                             content = ''# Chart: '' @ title
                                       @ ''\<newline># Data Type: table\<newline># Exported: ''
                                       @ now @ ''\<newline>''\<rparr>))
         \<and> (exportBarChartData q title = Inr []
            \<longrightarrow> createCsvExportHandler parse now title q (Some Barchart)
                = Inr (Some \<lparr>filename = title @ ''_barchart_data.csv'', mime = ''text/csv'',
                             content = ''# Chart: '' @ title
                                       @ ''\<newline># Data Type: barchart\<newline># Exported: ''
                                       @ now @ ''\<newline>''\<rparr>))"
  using assms by (simp add: createCsvExportHandler_def shape_name_def)

theorem handler_downloads_after_empty_serialization_witness:
  "exportTimeSeriesData (\<lambda>s. None) (JObj [(''series'', JArr [])]) ''T'' = Inr []
   \<and> createCsvExportHandler (\<lambda>s. None) ''2025-01-01T00:00:00.000Z'' ''T''
       (JObj [(''series'', JArr [])]) (Some Timeseries)
     = Inr (Some \<lparr>filename = ''T_timeseries_data.csv'', mime = ''text/csv'',
                  content = ''# Chart: T\<newline># Data Type: timeseries\<newline># Exported: 2025-01-01T00:00:00.000Z\<newline>''\<rparr>)"
proof -
  have empty: "exportTimeSeriesData (\<lambda>s. None) (JObj [(''series'', JArr [])]) ''T'' = Inr []"
    by (simp add: exportTimeSeriesData_def get_prop_def)
  then show ?thesis
    using handler_downloads_after_empty_serialization
            [of "JObj [(''series'', JArr [])]" "\<lambda>s. None" "''T''" "''2025-01-01T00:00:00.000Z''"]
    by simp
qed

text \<open>
  C5. The claim: a table cell holding a comma, a double quote or a newline is written
  between double quotes, its double quotes doubled. The table serializer quotes on a comma
  only: a string cell without a comma is written as it is, whatever else it holds.
  So \<open>say "hi"\<close> and a cell with a newline come out raw, while \<open>a,"b\<close> is quoted and
  doubled.
\<close>

theorem quote_without_comma_not_escaped:
  "(CHR '','' \<notin> set s \<longrightarrow> table_cell (JObj [(''c'', JStr s)]) (JObj [(''name'', JStr ''c'')]) = Inr s)
   \<and> table_cell (JObj [(''c'', JStr (''say '' @ [dq] @ ''hi'' @ [dq]))]) (JObj [(''name'', JStr ''c'')])
     = Inr (''say '' @ [dq] @ ''hi'' @ [dq])
   \<and> table_cell (JObj [(''c'', JStr ''a\<newline>b'')]) (JObj [(''name'', JStr ''c'')])
     = Inr ''a\<newline>b''
   \<and> table_cell (JObj [(''c'', JStr (''a,'' @ [dq] @ ''b''))]) (JObj [(''name'', JStr ''c'')])
     = Inr ([dq] @ ''a,'' @ [dq, dq] @ ''b'' @ [dq])
   \<and> exportTableData
       (JObj [(''columns'', JArr [JObj [(''name'', JStr ''c'')]]),
              (''rows'', JArr [JObj [(''c'', JStr (''say '' @ [dq] @ ''hi'' @ [dq]))]])]) title
     = Inr (''# Column Information:\<newline># c: c\<newline>#\<newline>c\<newline>say ''
            @ [dq] @ ''hi'' @ [dq] @ ''\<newline>'')"
  by (simp add: table_cell_def get_prop_def dq_def double_quotes_def exportTableData_def iter_def
      as_array_def column_line_def column_header_def js_or_def table_row_def js_join_def)

theorem quote_without_comma_not_escaped_witness:
  "table_cell (JObj [(''c'', JStr [dq])]) (JObj [(''name'', JStr ''c'')]) = Inr [dq]
   \<and> exportTableData
       (JObj [(''columns'', JArr [JObj [(''name'', JStr ''c'')]]),
              (''rows'', JArr [JObj [(''c'', JStr (''say '' @ [dq] @ ''hi'' @ [dq]))]])]) ''Pods''
     = Inr (''# Column Information:\<newline># c: c\<newline>#\<newline>c\<newline>say ''
            @ [dq] @ ''hi'' @ [dq] @ ''\<newline>'')"
  using quote_without_comma_not_escaped [of "[dq]" "''Pods''"]
  by (simp add: dq_def)

section \<open>Claims about the time-series output\<close>







section \<open>Claims about missing and empty fields\<close>

lemma array_prop_truthy: "own_prop d k = JArr xs \<Longrightarrow> truthy d"
  by (cases d) (auto split: if_splits option.splits)

lemma column_line_total: "\<not> nullish c \<Longrightarrow> \<exists>l. column_line c = Inr l"
  by (simp add: column_line_def get_prop_def Let_def)

lemma column_header_total: "\<not> nullish c \<Longrightarrow> \<exists>h. column_header c = Inr h"
  by (simp add: column_header_def get_prop_def)

lemma empty_table_text:
  assumes "\<not> nullish d" and "own_prop d ''columns'' = JArr cols" and "own_prop d ''rows'' = JArr []"
    and "\<forall>c \<in> set cols. \<not> nullish c"
  shows "\<exists>info headers.
           map_res column_line cols = Inr info \<and> map_res column_header cols = Inr headers
           \<and> exportTableData d title
               = Inr (''# Column Information:\<newline>'' @ concat info @ ''#\<newline>''
                      @ js_join '','' headers @ ''\<newline>'')"
proof -
  from assms(4) obtain info where info: "map_res column_line cols = Inr info"
    using map_res_total [of cols column_line] column_line_total by blast
  from assms(4) obtain headers where headers: "map_res column_header cols = Inr headers"
    using map_res_total [of cols column_header] column_header_total by blast
  have "exportTableData d title
          = Inr (''# Column Information:\<newline>'' @ concat info @ ''#\<newline>''
                 @ js_join '','' headers @ ''\<newline>'')"
    using assms(1-3) info headers
    by (simp add: exportTableData_def get_prop_def iter_def as_array_def)
  with info headers show ?thesis by blast
qed

lemma no_series_no_table_unknown:
  assumes "\<not> is_array (own_prop d ''series'') \<or> own_prop d ''series'' = JArr []"
    and "\<not> is_array (own_prop d ''columns'') \<or> \<not> is_array (own_prop d ''rows'')"
  shows "detectDataType d = Inr Unknown"
  using assms
  by (auto simp add: detectDataType_def is_array_iff split: jsval.splits list.splits)

text \<open>
  C3. The claim: every serializer returns the empty string when its required field is
  missing or empty, \<open>hasExportableData\<close> is false in exactly those cases, and a table
  with an empty \<open>rows\<close> array serializes to the empty string. The guard of the table
  serializer is \<open>!data.columns || !data.rows\<close>, and an empty array is truthy: a table
  with one column and no rows serializes to its column comments and its header row, and
  \<open>hasExportableData\<close> is true of it.
\<close>

theorem empty_rows_table_not_empty:
  "exportTableData (JObj [(''columns'', JArr [JObj [(''name'', JStr ''ns'')]]), (''rows'', JArr [])])
     ''Pods''
   = Inr ''# Column Information:\<newline># ns: ns\<newline>#\<newline>ns\<newline>''
   \<and> hasExportableData (JObj [(''columns'', JArr [JObj [(''name'', JStr ''ns'')]]),
                             (''rows'', JArr [])]) = Inr True"
  by (simp add: exportTableData_def get_prop_def iter_def as_array_def column_line_def
      column_header_def js_or_def js_join_def hasExportableData_def detectDataType_def)

text \<open>
  C3, amended. For a payload that is not \<open>null\<close> or \<open>undefined\<close>: the time-series
  serializer returns the empty string when \<open>series\<close> is missing, not an array or empty;
  the table serializer when \<open>columns\<close> or \<open>rows\<close> is missing (falsy); the bar-chart
  serializer when \<open>categories\<close> or \<open>series\<close> is missing (falsy). When \<open>series\<close> is
  not a non-empty array and \<open>columns\<close> or \<open>rows\<close> is not an array,
  \<open>hasExportableData\<close> is false and the export button is not rendered. A table whose
  \<open>rows\<close> is the empty array and whose \<open>columns\<close> is an array of objects serializes to
  its column comments and its header row, and when it has no \<open>series\<close> array
  \<open>hasExportableData\<close> is true of it.
\<close>

theorem missing_fields_serialize_empty:
  assumes "\<not> nullish d"
  shows "(\<not> is_array (own_prop d ''series'') \<or> own_prop d ''series'' = JArr []
            \<longrightarrow> exportTimeSeriesData parse d title = Inr [])
         \<and> (\<not> truthy (own_prop d ''columns'') \<or> \<not> truthy (own_prop d ''rows'')
            \<longrightarrow> exportTableData d title = Inr [])
         \<and> (\<not> truthy (own_prop d ''categories'') \<or> \<not> truthy (own_prop d ''series'')
            \<longrightarrow> exportBarChartData d title = Inr [])
         \<and> ((\<not> is_array (own_prop d ''series'') \<or> own_prop d ''series'' = JArr [])
            \<and> (\<not> is_array (own_prop d ''columns'') \<or> \<not> is_array (own_prop d ''rows''))
            \<longrightarrow> hasExportableData d = Inr False \<and> csvExportButton d dataType = Inr None)
         \<and> (own_prop d ''columns'' = JArr cols \<and> (\<forall>c \<in> set cols. \<not> nullish c)
            \<and> own_prop d ''rows'' = JArr []
            \<longrightarrow> (\<exists>info headers.
                   map_res column_line cols = Inr info \<and> map_res column_header cols = Inr headers
                   \<and> exportTableData d title
                       = Inr (''# Column Information:\<newline>'' @ concat info @ ''#\<newline>''
                              @ js_join '','' headers @ ''\<newline>''))
                \<and> (\<not> is_array (own_prop d ''series'') \<longrightarrow> hasExportableData d = Inr True))"
proof (intro conjI impI)
  assume "\<not> is_array (own_prop d ''series'') \<or> own_prop d ''series'' = JArr []"
  then show "exportTimeSeriesData parse d title = Inr []"
    using assms
    by (auto simp add: exportTimeSeriesData_def get_prop_def is_array_iff
        split: jsval.splits list.splits)
next
  assume "\<not> truthy (own_prop d ''columns'') \<or> \<not> truthy (own_prop d ''rows'')"
  then show "exportTableData d title = Inr []"
    using assms by (auto simp add: exportTableData_def get_prop_def)
next
  assume "\<not> truthy (own_prop d ''categories'') \<or> \<not> truthy (own_prop d ''series'')"
  then show "exportBarChartData d title = Inr []"
    using assms by (auto simp add: exportBarChartData_def get_prop_def)
next
  assume "(\<not> is_array (own_prop d ''series'') \<or> own_prop d ''series'' = JArr [])
          \<and> (\<not> is_array (own_prop d ''columns'') \<or> \<not> is_array (own_prop d ''rows''))"
  then have unknown: "detectDataType d = Inr Unknown"
    using no_series_no_table_unknown by blast
  then show "hasExportableData d = Inr False"
    by (simp add: hasExportableData_def)
  from unknown show "csvExportButton d dataType = Inr None"
    by (simp add: csvExportButton_def hasExportableData_def)
next
  assume "own_prop d ''columns'' = JArr cols \<and> (\<forall>c \<in> set cols. \<not> nullish c)
          \<and> own_prop d ''rows'' = JArr []"
  then show "\<exists>info headers.
               map_res column_line cols = Inr info \<and> map_res column_header cols = Inr headers
               \<and> exportTableData d title
                   = Inr (''# Column Information:\<newline>'' @ concat info @ ''#\<newline>''
                          @ js_join '','' headers @ ''\<newline>'')"
    using empty_table_text [OF assms] by blast
next
  assume table: "own_prop d ''columns'' = JArr cols \<and> (\<forall>c \<in> set cols. \<not> nullish c)
          \<and> own_prop d ''rows'' = JArr []"
    and "\<not> is_array (own_prop d ''series'')"
  moreover from table have "truthy d"
    using array_prop_truthy by blast
  ultimately have "detectDataType d = Inr Table"
    by (auto simp add: detectDataType_def is_array_iff split: jsval.splits list.splits)
  then show "hasExportableData d = Inr True"
    by (simp add: hasExportableData_def)
qed

theorem missing_fields_serialize_empty_witness:
  "exportTimeSeriesData (\<lambda>s. None) (JObj [(''title'', JStr ''x'')]) ''Pods'' = Inr []
   \<and> exportTableData (JObj [(''title'', JStr ''x'')]) ''Pods'' = Inr []
   \<and> exportBarChartData (JObj [(''title'', JStr ''x'')]) ''Pods'' = Inr []
   \<and> hasExportableData (JObj [(''title'', JStr ''x'')]) = Inr False
   \<and> csvExportButton (JObj [(''title'', JStr ''x'')]) None = Inr None
   \<and> exportTableData (JObj [(''columns'', JArr [JObj [(''name'', JStr ''ns'')]]),
                           (''rows'', JArr [])]) ''Pods''
     = Inr ''# Column Information:\<newline># ns: ns\<newline>#\<newline>ns\<newline>''
   \<and> hasExportableData (JObj [(''columns'', JArr [JObj [(''name'', JStr ''ns'')]]),
                             (''rows'', JArr [])]) = Inr True"
  using missing_fields_serialize_empty
          [of "JObj [(''title'', JStr ''x'')]" "\<lambda>s. None" "''Pods''" None "[]"]
        missing_fields_serialize_empty
          [of "JObj [(''columns'', JArr [JObj [(''name'', JStr ''ns'')]]), (''rows'', JArr [])]"
              "\<lambda>s. None" "''Pods''" None "[JObj [(''name'', JStr ''ns'')]]"]
  by (auto simp add: column_line_def column_header_def get_prop_def js_or_def js_join_def)

end
